theory Spec2Isabelle
  imports Main "HOL-Library.AList"
begin

section \<open>Python values and dictionaries\<close>

text \<open>
  The values that flow through node contexts and keyword arguments. A Python \<open>dict\<close>
  keeps its keys in insertion order, so it is an association list: a key that is
  assigned again keeps its place, a new key goes to the end (\<open>AList.update\<close>).
\<close>

datatype pyval =
    PNone
  | PBool bool
  | PInt int
  | PStr string
  | PList "pyval list"
  | PDict "(string \<times> pyval) list"

type_synonym pydict = "(string \<times> pyval) list"

text \<open>Python truthiness of the built-in values (\<open>bool(v)\<close>).\<close>

fun truthy :: "pyval \<Rightarrow> bool" where
  "truthy PNone = False"
| "truthy (PBool b) = b"
| "truthy (PInt i) = (i \<noteq> 0)"
| "truthy (PStr s) = (s \<noteq> [])"
| "truthy (PList xs) = (xs \<noteq> [])"
| "truthy (PDict d) = (d \<noteq> [])"

text \<open>
  \<open>k in d\<close>, \<open>d.get(k, default)\<close> and \<open>d.update(e)\<close>; \<open>d[k]\<close> is \<open>map_of d k\<close>, with
  \<open>None\<close> for the \<open>KeyError\<close>.
\<close>

definition dict_contains :: "('k \<times> 'v) list \<Rightarrow> 'k \<Rightarrow> bool" where
  "dict_contains d k = (map_of d k \<noteq> None)"

definition dict_get :: "('k \<times> 'v) list \<Rightarrow> 'k \<Rightarrow> 'v \<Rightarrow> 'v" where
  "dict_get d k dflt = (case map_of d k of Some v \<Rightarrow> v | None \<Rightarrow> dflt)"

definition dict_update :: "('k \<times> 'v) list \<Rightarrow> ('k \<times> 'v) list \<Rightarrow> ('k \<times> 'v) list" where
  "dict_update d e = foldl (\<lambda>acc kv. AList.update (fst kv) (snd kv) acc) d e"

section \<open>Errors\<close>

text \<open>
  Every \<open>raise\<close> and failing \<open>assert\<close> of the source is a value. The exception of
  \<open>_populate_run_args\<close> is a plain \<open>Exception\<close> whose message is formatted from the
  parameter name and the node's context; the constructor carries those two arguments.
\<close>

datatype error =
    MissingRunArg string pydict
  | AssertionError string
  | KeyError string
  | UnboundLocalError string
  | ValueError string
  | TypeError string
  | AttributeError string
  | CleanUpErrors "string list"

section \<open>Node\<close>

text \<open>
  The signature of a node's \<open>run\<close> method as \<open>inspect.signature\<close> gives it for the
  bound method: the parameters in order, each with its kind and its default
  (\<open>None\<close> is \<open>Parameter.empty\<close>).
\<close>

datatype param_kind =
    POSITIONAL_ONLY
  | POSITIONAL_OR_KEYWORD
  | VAR_POSITIONAL
  | KEYWORD_ONLY
  | VAR_KEYWORD

record param =
  param_name :: string
  param_kind :: param_kind
  param_default :: "pyval option"

text \<open>
  A node: \<open>live_context\<close> is the attribute \<open>context\<close> of the source (a reserved word
  here). \<open>default_context\<close> and \<open>live_context\<close> are distinct dictionaries in the
  source (\<open>reset_context\<close> stores a copy), which is what value semantics gives.
\<close>

record Node =
  name :: string
  default_context :: pydict
  live_context :: pydict
  run_args :: "string list"
  run_kwargs :: pydict

text \<open>
  \<open>_get_run_args\<close>: the loop over the signature, the first parameter (the item)
  skipped; the accumulator holds the two ordered dictionaries. The positionals map
  every name to \<open>None\<close>, so only their keys are kept.
\<close>

fun get_run_args_loop ::
  "param list \<Rightarrow> nat \<Rightarrow> string list \<times> pydict \<Rightarrow> error + (string list \<times> pydict)" where
  "get_run_args_loop [] i acc = Inr acc"
| "get_run_args_loop (p # ps) i (positionals, keywords) =
     (if i = 0 then get_run_args_loop ps (Suc i) (positionals, keywords)
      else if param_kind p = POSITIONAL_ONLY then
        get_run_args_loop ps (Suc i)
          (if param_name p \<in> set positionals then positionals
           else positionals @ [param_name p], keywords)
      else if param_default p = None \<and> param_kind p = POSITIONAL_OR_KEYWORD then
        get_run_args_loop ps (Suc i)
          (if param_name p \<in> set positionals then positionals
           else positionals @ [param_name p], keywords)
      else if param_kind p = POSITIONAL_OR_KEYWORD then
        get_run_args_loop ps (Suc i)
          (positionals, AList.update (param_name p) (the (param_default p)) keywords)
      else if param_kind p = VAR_KEYWORD then
        get_run_args_loop ps (Suc i) (positionals, keywords)
      else Inl (AssertionError ''params of this kind are not allowed in run()''))"

definition get_run_args :: "param list \<Rightarrow> error + (string list \<times> pydict)" where
  "get_run_args sig = get_run_args_loop sig 0 ([], [])"

definition update_context :: "Node \<Rightarrow> pydict \<Rightarrow> Node" where
  "update_context n c = n\<lparr>live_context := dict_update (live_context n) c\<rparr>"

definition reset_context :: "Node \<Rightarrow> Node" where
  "reset_context n = n\<lparr>live_context := default_context n\<rparr>"

text \<open>\<open>Node.__init__(name, **default_context)\<close>, with the signature of \<open>run\<close>.\<close>

definition Node_init :: "string \<Rightarrow> pydict \<Rightarrow> param list \<Rightarrow> error + Node" where
  "Node_init nm dflt sig =
     (let n = reset_context
                \<lparr>name = nm, default_context = dflt, live_context = [],
                 run_args = [], run_kwargs = []\<rparr>
      in case get_run_args sig of
           Inl e \<Rightarrow> Inl e
         | Inr (positionals, keywords) \<Rightarrow>
             Inr (n\<lparr>run_args := positionals, run_kwargs := keywords\<rparr>))"

subsection \<open>The two dictionaries of a node as objects\<close>

text \<open>
  The same three methods with the dictionaries as objects in a store, an object's
  address being its index: \<open>__init__\<close> keeps the dictionary of its keyword arguments
  as \<open>default_context\<close>, \<open>reset_context\<close> binds \<open>context\<close> to a new object, the copy,
  and \<open>update_context\<close> changes the object that \<open>context\<close> refers to, in place.
\<close>

type_synonym store = "pydict list"

record NodeRefs =
  default_context_ref :: nat
  context_ref :: nat

definition new_dict :: "store \<Rightarrow> pydict \<Rightarrow> store \<times> nat" where
  "new_dict h d = (h @ [d], length h)"

definition reset_context_obj :: "store \<times> NodeRefs \<Rightarrow> store \<times> NodeRefs" where
  "reset_context_obj s =
     (case s of (h, n) \<Rightarrow>
        (let (h', c) = new_dict h (h ! default_context_ref n)
         in (h', n\<lparr>context_ref := c\<rparr>)))"

definition Node_init_obj :: "store \<Rightarrow> pydict \<Rightarrow> store \<times> NodeRefs" where
  "Node_init_obj h dflt =
     (let (h', a) = new_dict h dflt
      in reset_context_obj (h', \<lparr>default_context_ref = a, context_ref = a\<rparr>))"

definition update_context_obj :: "store \<times> NodeRefs \<Rightarrow> pydict \<Rightarrow> store \<times> NodeRefs" where
  "update_context_obj s c =
     (case s of (h, n) \<Rightarrow>
        (h[context_ref n := dict_update (h ! context_ref n) c], n))"

text \<open>The two references are valid and distinct, and the default context is \<open>D\<close>.\<close>

definition separate :: "pydict \<Rightarrow> store \<times> NodeRefs \<Rightarrow> bool" where
  "separate D s =
     (case s of (h, n) \<Rightarrow>
        default_context_ref n < length h \<and> context_ref n < length h
        \<and> default_context_ref n \<noteq> context_ref n \<and> h ! default_context_ref n = D)"

text \<open>
  \<open>GlobalState.__bool__\<close> returns \<open>True\<close> whatever the state holds; the state itself
  is a mapping from names to values.
\<close>

definition GlobalState_bool :: "pydict \<Rightarrow> bool" where
  "GlobalState_bool gs = True"

subsection \<open>Resolving the arguments of \<open>run\<close>\<close>

text \<open>
  \<open>_populate_run_args\<close>, first loop: one positional per required parameter, from the
  context, else from the global state, else the exception.
\<close>

fun populate_args_loop ::
  "string list \<Rightarrow> pydict \<Rightarrow> pydict \<Rightarrow> pyval list \<Rightarrow> error + pyval list" where
  "populate_args_loop [] ctx gs args = Inr args"
| "populate_args_loop (run_arg # rest) ctx gs args =
     (case map_of ctx run_arg of
        None \<Rightarrow>
          (if GlobalState_bool gs \<and> dict_contains gs run_arg
           then (case map_of gs run_arg of
                   Some v \<Rightarrow> populate_args_loop rest ctx gs (args @ [v])
                 | None \<Rightarrow> Inl (KeyError run_arg))
           else Inl (MissingRunArg run_arg ctx))
      | Some v \<Rightarrow> populate_args_loop rest ctx gs (args @ [v]))"

text \<open>Second loop: every other key of the context becomes a keyword argument.\<close>

definition populate_kwargs :: "string list \<Rightarrow> pydict \<Rightarrow> pydict" where
  "populate_kwargs rargs ctx =
     foldl (\<lambda>kw key. if key \<in> set rargs then kw
                      else (case map_of ctx key of
                              Some v \<Rightarrow> AList.update key v kw
                            | None \<Rightarrow> kw))
           [] (map fst ctx)"

definition populate_run_args :: "Node \<Rightarrow> pydict \<Rightarrow> error + (pyval list \<times> pydict)" where
  "populate_run_args n gs =
     (case populate_args_loop (run_args n) (live_context n) gs [] of
        Inl e \<Rightarrow> Inl e
      | Inr args \<Rightarrow> Inr (args, populate_kwargs (run_args n) (live_context n)))"

subsection \<open>Items and what a node does with them\<close>

text \<open>
  An item is a tabular (pandas) object, here its rows, or any other value.
  What a node does is recorded as a trace: a call of the extension point \<open>run\<close> with
  the item and the resolved arguments, or a push of a value to the next stage.
\<close>

datatype item = Tabular "pyval list list" | Plain pyval

datatype 'a effect = Run item "pyval list" pydict | Push 'a

text \<open>
  Modelled from the spec: \<open>glide.utils.is_pandas\<close> is not part of the sources at hand,
  and \<open>empty\<close> is an attribute of the pandas object. Section 4.2: "a tabular item is
  empty if it has zero rows".
\<close>

fun is_pandas :: "item \<Rightarrow> bool" where
  "is_pandas (Tabular rows) = True"
| "is_pandas (Plain v) = False"

fun item_empty :: "item \<Rightarrow> bool" where
  "item_empty (Tabular rows) = (rows = [])"
| "item_empty (Plain v) = False"

text \<open>\<open>not item\<close> for an item that is not a pandas object.\<close>

fun item_not :: "item \<Rightarrow> bool" where
  "item_not (Plain v) = (\<not> truthy v)"
| "item_not (Tabular rows) = False"

text \<open>\<open>Node._run\<close> calls \<open>run\<close>; \<open>SkipFalseNode._run\<close> pushes a false item instead.\<close>

definition Node_run :: "item \<Rightarrow> pyval list \<Rightarrow> pydict \<Rightarrow> item effect list" where
  "Node_run it args kwargs = [Run it args kwargs]"

definition SkipFalseNode_run :: "item \<Rightarrow> pyval list \<Rightarrow> pydict \<Rightarrow> item effect list" where
  "SkipFalseNode_run it args kwargs =
     (if is_pandas it then
        (if item_empty it then [Push it] else [Run it args kwargs])
      else
        (if item_not it then [Push it] else [Run it args kwargs]))"

text \<open>
  The call \<open>self._run(item, *_args, **_kwargs)\<close>: \<open>_run(self, item, *args, **kwargs)\<close>
  takes \<open>self\<close> and \<open>item\<close> by position, so a keyword argument named \<open>self\<close> or \<open>item\<close>
  is refused with a \<open>TypeError\<close> (got multiple values for the argument) before
  \<open>_run\<close> is entered; the first such keyword, in the order of the keywords, is the
  one reported. Keys are strings here, so the refusal of a key that is not a string
  does not arise.
\<close>

definition run_call_collision :: "pydict \<Rightarrow> string option" where
  "run_call_collision kwargs =
     List.find (\<lambda>key. key = ''self'' \<or> key = ''item'') (map fst kwargs)"

text \<open>
  \<open>process\<close>: resolve the arguments, then call \<open>self._run\<close>, which is the \<open>_run\<close> of
  the node's class and so a parameter here.
\<close>

definition process ::
  "(item \<Rightarrow> pyval list \<Rightarrow> pydict \<Rightarrow> 'a effect list) \<Rightarrow> Node \<Rightarrow> pydict \<Rightarrow> item
     \<Rightarrow> error + 'a effect list" where
  "process run' n gs it =
     (case populate_run_args n gs of
        Inl e \<Rightarrow> Inl e
      | Inr (args, kwargs) \<Rightarrow>
          (case run_call_collision kwargs of
             Some key \<Rightarrow>
               Inl (TypeError (''_run() got multiple values for argument '' @ key))
           | None \<Rightarrow> Inr (run' it args kwargs)))"

text \<open>
  Section 4.1 of the specification, in its words: look the parameter up in the node's
  context; if absent, look it up in the global state.
\<close>

definition resolve_arg :: "pydict \<Rightarrow> pydict \<Rightarrow> string \<Rightarrow> pyval option" where
  "resolve_arg ctx gs p = (case map_of ctx p of Some v \<Rightarrow> Some v | None \<Rightarrow> map_of gs p)"

section \<open>Reducer\<close>

text \<open>
  The attribute \<open>results\<close> does not exist before \<open>begin\<close> has run (\<open>None\<close>). The
  signature of \<open>Reducer.run\<close> is \<open>(item, **kwargs)\<close>.
\<close>

record Reducer =
  node :: Node
  results :: "item list option"









section \<open>Fan-out\<close>

text \<open>
  \<open>numpy.array_split(ary, Nsections)\<close> for an integer number of sections: the length
  of \<open>ary\<close>, the check of the number of sections, \<open>divmod\<close>, the section sizes with a
  leading zero, their running sum as the division points, and one slice
  \<open>sary[st:end]\<close> per section. The slices are cut from \<open>sary\<close>, the array that numpy
  makes of \<open>ary\<close> (inside \<open>swapaxes\<close>): for an array it is \<open>ary\<close> itself, for another
  sequence the conversion may change the elements (the list \<open>[1, 'a']\<close> becomes
  the array \<open>['1', 'a']\<close>) or fail. The conversion is numpy's and is not modelled:
  its outcome for \<open>ary\<close> is the second argument.
\<close>

fun cumsum :: "nat \<Rightarrow> nat list \<Rightarrow> nat list" where
  "cumsum acc [] = []"
| "cumsum acc (x # xs) = (acc + x) # cumsum (acc + x) xs"

definition slice :: "'a list \<Rightarrow> nat \<Rightarrow> nat \<Rightarrow> 'a list" where
  "slice xs st en = take (en - st) (drop st xs)"

definition section_sizes :: "nat \<Rightarrow> nat \<Rightarrow> nat list" where
  "section_sizes Ntotal Nsections =
     (let Neach_section = Ntotal div Nsections;
          extras = Ntotal mod Nsections
      in [0] @ replicate extras (Neach_section + 1)
             @ replicate (Nsections - extras) Neach_section)"

text \<open>The section sizes without the leading zero, for the proofs below.\<close>

definition sizes :: "nat \<Rightarrow> nat \<Rightarrow> nat list" where
  "sizes L N = replicate (L mod N) (L div N + 1) @ replicate (N - L mod N) (L div N)"

definition array_split :: "'a list \<Rightarrow> error + 'a list \<Rightarrow> nat \<Rightarrow> error + 'a list list" where
  "array_split ary asarray_ary Nsections =
     (let Ntotal = length ary
      in if Nsections \<le> 0 then Inl (ValueError ''number sections must be larger than 0.'')
         else let div_points = cumsum 0 (section_sizes Ntotal Nsections)
              in case asarray_ary of
                   Inl e \<Rightarrow> Inl e
                 | Inr sary \<Rightarrow>
                     Inr (map (\<lambda>i. slice sary (div_points ! i) (div_points ! (i + 1)))
                              [0..<Nsections]))"

text \<open>
  \<open>self.context.get("executor_kwargs", None) or {}\<close>, unpacked with \<open>**\<close>, which
  refuses a value that is not a mapping.
\<close>

definition executor_kwargs :: "Node \<Rightarrow> error + pydict" where
  "executor_kwargs n =
     (let v = dict_get (live_context n) ''executor_kwargs'' PNone
      in if truthy v
         then (case v of
                 PDict kw \<Rightarrow> Inr kw
               | _ \<Rightarrow> Inl (TypeError ''argument after ** must be a mapping''))
         else Inr [])"

text \<open>
  \<open>FuturesPushNode._push\<close>. The result is the outcome of the call and the tasks handed
  to \<open>executor.submit\<close>, in submission order, each a downstream node with the value
  its \<open>_process\<close> is called on. The item is a sequence. Three things come from
  outside and are arguments: \<open>executor_failure\<close>, the exception that
  \<open>self.executor_class(**executor_kwargs)\<close> raises for these keyword arguments, if it
  raises; \<open>asarray_it\<close>, the outcome of numpy's conversion of the item; and
  \<open>task_failure\<close>, the exception that the loop over the completed futures re-raises
  from \<open>future.result()\<close>, if a task has failed. The executor is created first; when
  that fails nothing is split or submitted. Logging is left out.
\<close>

definition FuturesPushNode_push ::
  "Node \<Rightarrow> error option \<Rightarrow> error option \<Rightarrow> 'd list \<Rightarrow> 'a list \<Rightarrow> error + 'a list
     \<Rightarrow> (error + unit) \<times> ('d \<times> 'a list) list" where
  "FuturesPushNode_push n executor_failure task_failure downstream_nodes it asarray_it =
     (case executor_kwargs n of
        Inl e \<Rightarrow> (Inl e, [])
      | Inr kw \<Rightarrow>
          (case executor_failure of
             Some e \<Rightarrow> (Inl e, [])
           | None \<Rightarrow>
               (let wait = (case task_failure of Some e \<Rightarrow> Inl e | None \<Rightarrow> Inr ())
                in if truthy (dict_get (live_context n) ''split'' (PBool False)) then
                     (case array_split it asarray_it (length downstream_nodes) of
                        Inl e \<Rightarrow> (Inl e, [])
                      | Inr splits \<Rightarrow>
                          (wait, map (\<lambda>(i, downstream). (downstream, splits ! i))
                                     (enumerate 0 downstream_nodes)))
                   else (wait, map (\<lambda>downstream. (downstream, it)) downstream_nodes))))"

section \<open>The command line surface\<close>

text \<open>\<open>str.split(sep)\<close> for a one-character separator, and \<open>sep.join(parts)\<close>.\<close>

fun split :: "char \<Rightarrow> string \<Rightarrow> string list" where
  "split sep [] = [ []]"
| "split sep (c # cs) =
     (if c = sep then [] # split sep cs
      else (case split sep cs of
              [] \<Rightarrow> [ [c]]
            | part # parts \<Rightarrow> (c # part) # parts))"

fun join :: "string \<Rightarrow> string list \<Rightarrow> string" where
  "join sep [] = []"
| "join sep [part] = part"
| "join sep (part # parts) = part @ sep @ join sep parts"

text \<open>The type of a value, as \<open>type(default)\<close> gives it.\<close>

datatype pytype = TNoneType | TBool | TInt | TStr | TList | TDict

fun type_of :: "pyval \<Rightarrow> pytype" where
  "type_of PNone = TNoneType"
| "type_of (PBool b) = TBool"
| "type_of (PInt i) = TInt"
| "type_of (PStr s) = TStr"
| "type_of (PList xs) = TList"
| "type_of (PDict d) = TDict"

text \<open>
  A \<open>toolbox.Arg\<close>: the first positional argument and the keyword arguments it was
  built with (\<open>None\<close> for a keyword that was not passed).
\<close>

record Arg =
  arg_flag :: string
  arg_required :: "bool option"
  arg_type :: "pytype option"
  arg_action :: "string option"
  arg_default :: "pyval option"
  arg_nargs :: "string option"

text \<open>
  Modelled from the spec: \<open>Arg.name\<close> belongs to the toolbox package, which is not
  part of the sources at hand. Section 4.7: one argument per parameter, "named
  \<open><node-name>_<parameter-name>\<close>"; the source builds the option string
  \<open>--<node-name>_<parameter-name>\<close>, so the name is the option string without its
  leading dashes.
\<close>

definition Arg_name :: "Arg \<Rightarrow> string" where
  "Arg_name a = dropWhile (\<lambda>c. c = CHR ''-'') (arg_flag a)"

definition SCRIPT_DATA_ARG :: string where
  "SCRIPT_DATA_ARG = ''data''"

text \<open>
  The script: the glider's node lookup (the nodes in the order of the lookup, each
  under its name), its global state, and the three arguments of the decorator.
  A provider of the injection map takes no argument; a clean-up function takes the
  value to clean up and may raise.
\<close>

record GliderScript =
  node_lookup :: "Node list"
  global_state :: pydict
  blacklist :: "string list"
  inject :: "(string \<times> (unit \<Rightarrow> pyval)) list"
  clean :: "(string \<times> (pyval \<Rightarrow> error option)) list"

text \<open>\<open>GliderScript.__init__\<close>: the injected names join the blacklist.\<close>

definition GliderScript_init ::
  "Node list \<Rightarrow> pydict \<Rightarrow> string list \<Rightarrow> (string \<times> (unit \<Rightarrow> pyval)) list
     \<Rightarrow> (string \<times> (pyval \<Rightarrow> error option)) list \<Rightarrow> GliderScript" where
  "GliderScript_init nodes gs bl injected cl =
     \<lparr>node_lookup = nodes, global_state = gs,
      blacklist = foldl (\<lambda>b injected_arg. if injected_arg \<in> set b then b
                                            else b @ [injected_arg]) bl (map fst injected),
      inject = injected, clean = cl\<rparr>"

definition get_injected_kwargs :: "GliderScript \<Rightarrow> pydict" where
  "get_injected_kwargs self =
     (if inject self = [] then []
      else foldl (\<lambda>result kf. AList.update (fst kf) ((snd kf) ()) result) [] (inject self))"

subsection \<open>Clean-up\<close>

text \<open>
  One pass of the loop of \<open>clean_up\<close>: the body of the \<open>try\<close> appends the message
  when the key is missing, then reads \<open>kwargs[key]\<close> and calls the function; the
  \<open>except: pass\<close> swallows whatever was raised. The second component records the
  calls of clean-up functions, in order.
\<close>

definition clean_try ::
  "string \<Rightarrow> (pyval \<Rightarrow> error option) \<Rightarrow> pydict \<Rightarrow> string list \<times> (string \<times> pyval) list
     \<Rightarrow> (error + unit) \<times> string list \<times> (string \<times> pyval) list" where
  "clean_try key func kwargs st =
     (let errors = (if \<not> dict_contains kwargs key
                    then fst st @ [''Could not clean up '' @ key @ '', no arg found'']
                    else fst st)
      in case map_of kwargs key of
           None \<Rightarrow> (Inl (KeyError key), errors, snd st)
         | Some v \<Rightarrow>
             (case func v of
                Some e \<Rightarrow> (Inl e, errors, snd st @ [(key, v)])
              | None \<Rightarrow> (Inr (), errors, snd st @ [(key, v)])))"

fun clean_loop ::
  "(string \<times> (pyval \<Rightarrow> error option)) list \<Rightarrow> pydict
     \<Rightarrow> string list \<times> (string \<times> pyval) list \<Rightarrow> string list \<times> (string \<times> pyval) list" where
  "clean_loop [] kwargs st = st"
| "clean_loop ((key, func) # rest) kwargs st =
     (case clean_try key func kwargs st of
        (Inl e, st') \<Rightarrow> clean_loop rest kwargs st'
      | (Inr u, st') \<Rightarrow> clean_loop rest kwargs st')"

definition clean_up :: "GliderScript \<Rightarrow> pydict \<Rightarrow> (error + unit) \<times> (string \<times> pyval) list" where
  "clean_up self kwargs =
     (if clean self = [] then (Inr (), [])
      else let (errors, calls) = clean_loop (clean self) kwargs ([], [])
           in if errors \<noteq> [] then (Inl (CleanUpErrors errors), calls)
              else (Inr (), calls))"

subsection \<open>The arguments of the script\<close>

definition get_script_arg_name :: "string \<Rightarrow> string \<Rightarrow> string" where
  "get_script_arg_name node_name arg_name = node_name @ ''_'' @ arg_name"

definition blacklisted :: "GliderScript \<Rightarrow> string \<Rightarrow> string \<Rightarrow> bool" where
  "blacklisted self node_name arg_name =
     (if arg_name \<in> set (blacklist self) then True
      else if get_script_arg_name node_name arg_name \<in> set (blacklist self) then True
      else False)"

definition get_script_arg ::
  "GliderScript \<Rightarrow> Node \<Rightarrow> string \<Rightarrow> bool \<Rightarrow> pyval \<Rightarrow> Arg option" where
  "get_script_arg self nd arg_name required dflt =
     (if blacklisted self (name nd) arg_name then None
      else
        let (required, dflt) =
              (if dict_contains (inject self) arg_name then (False, PNone)
               else if dict_contains (live_context nd) arg_name
                 then (False, dict_get (live_context nd) arg_name PNone)
               else if dict_contains (global_state self) arg_name
                 then (False, dict_get (global_state self) arg_name PNone)
               else (required, dflt));
            arg_type = (if truthy dflt then type_of dflt else TStr);
            arg_name = ''--'' @ get_script_arg_name (name nd) arg_name
        in if arg_type = TBool then
             Some \<lparr>arg_flag = arg_name, arg_required = Some required, arg_type = None,
                   arg_action = Some (if truthy dflt then ''store_false'' else ''store_true''),
                   arg_default = Some dflt, arg_nargs = None\<rparr>
           else
             Some \<lparr>arg_flag = arg_name, arg_required = Some required,
                   arg_type = Some arg_type, arg_action = None,
                   arg_default = Some dflt, arg_nargs = None\<rparr>)"

text \<open>
  \<open>_get_script_args\<close>: the ordered dictionary of arguments under their names, filled
  with the data argument, the arguments of every node (required ones, then keyword
  ones), and the custom arguments; its values are returned.
\<close>

definition add_script_arg :: "(string \<times> Arg) list \<Rightarrow> Arg option \<Rightarrow> (string \<times> Arg) list" where
  "add_script_arg script_args script_arg =
     (case script_arg of
        None \<Rightarrow> script_args
      | Some a \<Rightarrow> AList.update (Arg_name a) a script_args)"

definition node_script_args ::
  "GliderScript \<Rightarrow> (string \<times> Arg) list \<Rightarrow> Node \<Rightarrow> (string \<times> Arg) list" where
  "node_script_args self script_args nd =
     (let script_args =
            foldl (\<lambda>acc arg_name.
                     add_script_arg acc (get_script_arg self nd arg_name True PNone))
                  script_args (run_args nd)
      in foldl (\<lambda>acc kw.
                  add_script_arg acc (get_script_arg self nd (fst kw) False (snd kw)))
               script_args (run_kwargs nd))"

fun custom_script_args_loop ::
  "GliderScript \<Rightarrow> Arg list \<Rightarrow> (string \<times> Arg) list \<Rightarrow> error + (string \<times> Arg) list" where
  "custom_script_args_loop self [] script_args = Inr script_args"
| "custom_script_args_loop self (custom_arg # rest) script_args =
     (if blacklisted self [] (Arg_name custom_arg)
      then Inl (AssertionError (''Blacklisted arg '' @ Arg_name custom_arg
                                  @ '' passed as a custom arg''))
      else custom_script_args_loop self rest
             (AList.update (Arg_name custom_arg) custom_arg script_args))"

definition get_script_args :: "GliderScript \<Rightarrow> Arg list \<Rightarrow> error + Arg list" where
  "get_script_args self custom_script_args =
     (let script_args =
            (if \<not> blacklisted self [] SCRIPT_DATA_ARG
             then [(SCRIPT_DATA_ARG,
                    \<lparr>arg_flag = SCRIPT_DATA_ARG, arg_required = None, arg_type = None,
                     arg_action = None, arg_default = None, arg_nargs = Some ''+''\<rparr>)]
             else []);
          script_args = foldl (node_script_args self) script_args (node_lookup self)
      in case custom_script_args_loop self custom_script_args script_args of
           Inl e \<Rightarrow> Inl e
         | Inr script_args \<Rightarrow> Inr (map snd script_args))"

subsection \<open>From flat keyword arguments to node contexts\<close>

text \<open>\<open>node_contexts.setdefault(node_name, {})[arg_name] = value\<close>.\<close>

definition set_node_context ::
  "(string \<times> pydict) list \<Rightarrow> string \<Rightarrow> string \<Rightarrow> pyval \<Rightarrow> (string \<times> pydict) list" where
  "set_node_context node_contexts node_name arg_name v =
     AList.update node_name (AList.update arg_name v (dict_get node_contexts node_name []))
       node_contexts"

text \<open>
  \<open>_get_injected_node_contexts\<close>. The variable \<open>arg_name\<close> of the source is local to
  the function: the loop over the keyword parameters writes under whatever the last
  pass of a loop over required parameters left in it, or fails when no such pass has
  run yet. The state is the node contexts and that variable. The right-hand side
  \<open>kwargs[...]\<close> is evaluated before the target.
\<close>

fun injected_run_args ::
  "GliderScript \<Rightarrow> pydict \<Rightarrow> string \<Rightarrow> string list
     \<Rightarrow> (string \<times> pydict) list \<times> string option
     \<Rightarrow> error + ((string \<times> pydict) list \<times> string option)" where
  "injected_run_args self kwargs node_name [] st = Inr st"
| "injected_run_args self kwargs node_name (arg_name # rest) (node_contexts, var) =
     (if dict_contains (inject self) arg_name then
        (case map_of kwargs arg_name of
           None \<Rightarrow> Inl (KeyError arg_name)
         | Some v \<Rightarrow>
             injected_run_args self kwargs node_name rest
               (set_node_context node_contexts node_name arg_name v, Some arg_name))
      else injected_run_args self kwargs node_name rest (node_contexts, Some arg_name))"

fun injected_run_kwargs ::
  "GliderScript \<Rightarrow> pydict \<Rightarrow> string \<Rightarrow> string list
     \<Rightarrow> (string \<times> pydict) list \<times> string option
     \<Rightarrow> error + ((string \<times> pydict) list \<times> string option)" where
  "injected_run_kwargs self kwargs node_name [] st = Inr st"
| "injected_run_kwargs self kwargs node_name (kwarg_name # rest) (node_contexts, var) =
     (if dict_contains (inject self) kwarg_name then
        (case map_of kwargs kwarg_name of
           None \<Rightarrow> Inl (KeyError kwarg_name)
         | Some v \<Rightarrow>
             (case var of
                None \<Rightarrow> Inl (UnboundLocalError ''arg_name'')
              | Some arg_name \<Rightarrow>
                  injected_run_kwargs self kwargs node_name rest
                    (set_node_context node_contexts node_name arg_name v, var)))
      else injected_run_kwargs self kwargs node_name rest (node_contexts, var))"

fun injected_nodes ::
  "GliderScript \<Rightarrow> pydict \<Rightarrow> Node list \<Rightarrow> (string \<times> pydict) list \<times> string option
     \<Rightarrow> error + ((string \<times> pydict) list \<times> string option)" where
  "injected_nodes self kwargs [] st = Inr st"
| "injected_nodes self kwargs (nd # rest) st =
     (case injected_run_args self kwargs (name nd) (run_args nd) st of
        Inl e \<Rightarrow> Inl e
      | Inr st' \<Rightarrow>
          (case injected_run_kwargs self kwargs (name nd) (map fst (run_kwargs nd)) st' of
             Inl e \<Rightarrow> Inl e
           | Inr st'' \<Rightarrow> injected_nodes self kwargs rest st''))"

definition get_injected_node_contexts ::
  "GliderScript \<Rightarrow> pydict \<Rightarrow> error + (string \<times> pydict) list" where
  "get_injected_node_contexts self kwargs =
     (case injected_nodes self kwargs (node_lookup self) ([], None) of
        Inl e \<Rightarrow> Inl e
      | Inr (node_contexts, var) \<Rightarrow> Inr node_contexts)"

text \<open>
  \<open>_convert_kwargs\<close>, first loop. \<open>unused\<close> is a set in the source; the keys of a
  dictionary are distinct, and the list keeps them in the order they were met.
\<close>

fun convert_loop ::
  "string list \<Rightarrow> pydict \<Rightarrow> (string \<times> pydict) list \<times> string list
     \<Rightarrow> error + ((string \<times> pydict) list \<times> string list)" where
  "convert_loop nodes [] st = Inr st"
| "convert_loop nodes ((key, v) # rest) (node_contexts, unused) =
     (let key_parts = split CHR ''_'' key;
          node_name = hd key_parts
      in if node_name \<notin> set nodes
         then convert_loop nodes rest
                (node_contexts, if key \<in> set unused then unused else unused @ [key])
         else if \<not> length key_parts > 1
         then Inl (AssertionError (''Invalid keyword arg '' @ key @ '', can not be a node name''))
         else convert_loop nodes rest
                (set_node_context node_contexts node_name (join ''_'' (tl key_parts)) v,
                 unused))"

definition merge_injected ::
  "(string \<times> pydict) list \<Rightarrow> (string \<times> pydict) list \<Rightarrow> (string \<times> pydict) list" where
  "merge_injected node_contexts injected_node_contexts =
     foldl (\<lambda>ncs nc.
              if dict_contains ncs (fst nc)
              then AList.update (fst nc) (dict_update (dict_get ncs (fst nc) []) (snd nc)) ncs
              else AList.update (fst nc) (snd nc) ncs)
           node_contexts injected_node_contexts"

definition convert_kwargs :: "GliderScript \<Rightarrow> pydict \<Rightarrow> error + pydict" where
  "convert_kwargs self kwargs =
     (case convert_loop (map name (node_lookup self)) kwargs ([], []) of
        Inl e \<Rightarrow> Inl e
      | Inr (node_contexts, unused) \<Rightarrow>
          (case get_injected_node_contexts self kwargs of
             Inl e \<Rightarrow> Inl e
           | Inr injected_node_contexts \<Rightarrow>
               (let final_kwargs =
                      map (\<lambda>nc. (fst nc, PDict (snd nc)))
                          (merge_injected node_contexts injected_node_contexts)
                in Inr (foldl (\<lambda>fk key. AList.update key (dict_get kwargs key PNone) fk)
                              final_kwargs unused))))"

section \<open>Context reset\<close>

lemma default_context_update_context:
  "default_context (update_context n c) = default_context n"
  by (simp add: update_context_def)

lemma default_context_updates:
  "default_context (foldl update_context n us) = default_context n"
  by (induction us arbitrary: n) (simp_all add: default_context_update_context)

lemma Node_init_default_context:
  "Node_init nm dflt sig = Inr n \<Longrightarrow> default_context n = dflt \<and> live_context n = dflt"
  by (auto simp: Node_init_def reset_context_def Let_def split: sum.splits prod.splits)

lemma separate_init: "separate D (Node_init_obj h D)"
  by (simp add: separate_def Node_init_obj_def reset_context_obj_def new_dict_def nth_append)

lemma separate_update: "separate D s \<Longrightarrow> separate D (update_context_obj s c)"
  by (auto simp: separate_def update_context_obj_def split: prod.splits)

lemma separate_updates: "separate D s \<Longrightarrow> separate D (foldl update_context_obj s us)"
  by (induction us arbitrary: s) (simp_all add: separate_update)

lemma reset_context_obj_separate:
  assumes "separate D s"
  shows "fst (reset_context_obj s) ! context_ref (snd (reset_context_obj s)) = D
       \<and> fst (reset_context_obj s) ! default_context_ref (snd (reset_context_obj s)) = D
       \<and> context_ref (snd (reset_context_obj s)) \<noteq> default_context_ref (snd (reset_context_obj s))"
  using assms
  by (auto simp: separate_def reset_context_obj_def new_dict_def nth_append split: prod.splits)

text \<open>
  C2. A node constructed with default context \<open>D\<close>, after any sequence of
  \<open>update_context\<close> calls and a \<open>reset_context\<close>, has a live context equal to \<open>D\<close>,
  and its default-context snapshot is still \<open>D\<close>. With the dictionaries as objects
  in a store it is the same: the object that \<open>context\<close> refers to after the reset
  holds \<open>D\<close>, so does the default context, and they are two objects.
\<close>

theorem reset_context_restores_default:
  assumes "Node_init nm D sig = Inr n"
  shows "live_context (reset_context (foldl update_context n us)) = D
       \<and> default_context (reset_context (foldl update_context n us)) = D
       \<and> (let s = reset_context_obj (foldl update_context_obj (Node_init_obj h D) us)
          in fst s ! context_ref (snd s) = D \<and> fst s ! default_context_ref (snd s) = D
             \<and> context_ref (snd s) \<noteq> default_context_ref (snd s))"
proof -
  have "separate D (foldl update_context_obj (Node_init_obj h D) us)"
    by (intro separate_updates separate_init)
  from reset_context_obj_separate [OF this] Node_init_default_context [OF assms]
  show ?thesis
    by (simp add: reset_context_def default_context_updates Let_def)
qed

theorem reset_context_restores_default_witness:
  "Node_init ''load'' [(''chunksize'', PInt 10)]
       [\<lparr>param_name = ''item'', param_kind = POSITIONAL_OR_KEYWORD, param_default = None\<rparr>,
        \<lparr>param_name = ''conn'', param_kind = POSITIONAL_OR_KEYWORD, param_default = None\<rparr>]
     = Inr \<lparr>name = ''load'', default_context = [(''chunksize'', PInt 10)],
            live_context = [(''chunksize'', PInt 10)],
            run_args = [''conn''], run_kwargs = []\<rparr>
   \<and> live_context (reset_context (foldl update_context
        \<lparr>name = ''load'', default_context = [(''chunksize'', PInt 10)],
         live_context = [(''chunksize'', PInt 10)],
         run_args = [''conn''], run_kwargs = []\<rparr>
        [ [(''chunksize'', PInt 99), (''conn'', PStr ''db'')], [(''extra'', PNone)]]))
     = [(''chunksize'', PInt 10)]"
proof -
  have h: "Node_init ''load'' [(''chunksize'', PInt 10)]
       [\<lparr>param_name = ''item'', param_kind = POSITIONAL_OR_KEYWORD, param_default = None\<rparr>,
        \<lparr>param_name = ''conn'', param_kind = POSITIONAL_OR_KEYWORD, param_default = None\<rparr>]
     = Inr \<lparr>name = ''load'', default_context = [(''chunksize'', PInt 10)],
            live_context = [(''chunksize'', PInt 10)],
            run_args = [''conn''], run_kwargs = []\<rparr>"
    by (simp add: Node_init_def get_run_args_def reset_context_def)
  from reset_context_restores_default [OF h] h show ?thesis by blast
qed

section \<open>Argument resolution\<close>

lemma populate_args_loop_eq:
  "populate_args_loop rargs ctx gs args =
     (case filter (\<lambda>p. resolve_arg ctx gs p = None) rargs of
        [] \<Rightarrow> Inr (args @ map (\<lambda>p. the (resolve_arg ctx gs p)) rargs)
      | q # qs \<Rightarrow> Inl (MissingRunArg q ctx))"
  by (induction rargs arbitrary: args)
     (auto simp: resolve_arg_def GlobalState_bool_def dict_contains_def
           split: option.splits list.splits)

lemma resolve_arg_None:
  "resolve_arg ctx gs p = None \<longleftrightarrow> \<not> dict_contains ctx p \<and> \<not> dict_contains gs p"
  by (simp add: resolve_arg_def dict_contains_def split: option.splits)

lemma filter_first:
  "\<forall>p\<in>set pre. \<not> P p \<Longrightarrow> P q \<Longrightarrow> filter P (pre @ q # post) = q # filter P post"
  by (induction pre) auto

lemma populate_kwargs_keys_aux:
  "fst ` set (foldl (\<lambda>kw key. if key \<in> set rargs then kw
                              else (case map_of ctx key of
                                      Some v \<Rightarrow> AList.update key v kw
                                    | None \<Rightarrow> kw)) kw0 ks)
     = fst ` set kw0 \<union> {k \<in> set ks. k \<notin> set rargs \<and> map_of ctx k \<noteq> None}"
proof (induction ks arbitrary: kw0)
  case Nil
  then show ?case by simp
next
  case (Cons key ks)
  show ?case
  proof (cases "key \<in> set rargs")
    case True
    then show ?thesis by (auto simp: Cons.IH)
  next
    case False
    then show ?thesis
      by (cases "map_of ctx key") (auto simp: Cons.IH dom_update)
  qed
qed

lemma populate_kwargs_keys:
  "fst ` set (populate_kwargs rargs ctx) = {k \<in> fst ` set ctx. k \<notin> set rargs}"
  unfolding populate_kwargs_def populate_kwargs_keys_aux
  by (auto simp: map_of_eq_None_iff)

lemma run_call_collision_None:
  "run_call_collision (populate_kwargs rargs ctx) = None \<longleftrightarrow>
     (\<forall>k\<in>{''self'', ''item''}. dict_contains ctx k \<longrightarrow> k \<in> set rargs)"
proof -
  have "run_call_collision (populate_kwargs rargs ctx) = None \<longleftrightarrow>
          (\<forall>k\<in>fst ` set (populate_kwargs rargs ctx). \<not> (k = ''self'' \<or> k = ''item''))"
    by (simp add: run_call_collision_def find_None_iff)
  also have "\<dots> \<longleftrightarrow> (\<forall>k\<in>{''self'', ''item''}. dict_contains ctx k \<longrightarrow> k \<in> set rargs)"
    unfolding populate_kwargs_keys dict_contains_def map_of_eq_None_iff by blast
  finally show ?thesis .
qed

text \<open>
  C1, as stated, fails: the node \<open>extract\<close> requires \<open>q\<close> and \<open>p\<close>, neither is in its
  context or in the global state, and the exception names \<open>q\<close>, the first missing
  parameter, not \<open>p\<close>; its second argument is the node's context, not the node.
\<close>

theorem process_missing_counterexample:
  "''p'' \<in> set (run_args \<lparr>name = ''extract'', default_context = [], live_context = [],
                         run_args = [''q'', ''p''], run_kwargs = []\<rparr>)
   \<and> \<not> dict_contains (live_context \<lparr>name = ''extract'', default_context = [],
                         live_context = [], run_args = [''q'', ''p''], run_kwargs = []\<rparr>) ''p''
   \<and> \<not> dict_contains ([] :: pydict) ''p''
   \<and> process Node_run \<lparr>name = ''extract'', default_context = [], live_context = [],
                         run_args = [''q'', ''p''], run_kwargs = []\<rparr> [] (Plain (PInt 1))
       = Inl (MissingRunArg ''q'' [])"
  by (simp add: process_def populate_run_args_def dict_contains_def GlobalState_bool_def)

text \<open>
  C1, amended. If every required parameter of the node is in its context or in the
  global state, and the context has no key named \<open>self\<close> or \<open>item\<close> outside the required
  parameters, \<open>process\<close> calls the node's \<open>_run\<close> with the item and one positional per
  required parameter, in order, the value taken from the context when the context
  has the parameter and from the global state otherwise. If some required parameter
  is in neither, \<open>process\<close> fails with the exception that names the first such
  parameter of the run contract and carries the node's context. If all are found
  but a remaining key of the context is \<open>self\<close> or \<open>item\<close>, the call of \<open>_run\<close> fails
  with a \<open>TypeError\<close> and \<open>_run\<close> is not entered.
\<close>

theorem process_resolution:
  "((\<forall>p\<in>set (run_args n). dict_contains (live_context n) p \<or> dict_contains gs p)
      \<and> (\<forall>k\<in>{''self'', ''item''}. dict_contains (live_context n) k \<longrightarrow> k \<in> set (run_args n))
      \<longrightarrow>
      process run' n gs it =
        Inr (run' it (map (\<lambda>p. case map_of (live_context n) p of
                                  Some v \<Rightarrow> v
                                | None \<Rightarrow> the (map_of gs p)) (run_args n))
                     (populate_kwargs (run_args n) (live_context n))))
   \<and> (run_args n = pre @ q # post
        \<and> (\<forall>p\<in>set pre. dict_contains (live_context n) p \<or> dict_contains gs p)
        \<and> \<not> dict_contains (live_context n) q \<and> \<not> dict_contains gs q \<longrightarrow>
      process run' n gs it = Inl (MissingRunArg q (live_context n)))
   \<and> ((\<forall>p\<in>set (run_args n). dict_contains (live_context n) p \<or> dict_contains gs p)
        \<and> run_call_collision (populate_kwargs (run_args n) (live_context n)) = Some key \<longrightarrow>
      process run' n gs it
        = Inl (TypeError (''_run() got multiple values for argument '' @ key)))"
proof (intro conjI impI)
  assume h: "(\<forall>p\<in>set (run_args n). dict_contains (live_context n) p \<or> dict_contains gs p)
      \<and> (\<forall>k\<in>{''self'', ''item''}. dict_contains (live_context n) k \<longrightarrow> k \<in> set (run_args n))"
  then have none: "filter (\<lambda>p. resolve_arg (live_context n) gs p = None) (run_args n) = []"
    by (auto simp: resolve_arg_None filter_empty_conv)
  have free: "run_call_collision (populate_kwargs (run_args n) (live_context n)) = None"
    unfolding run_call_collision_None using h by blast
  have vals: "map (\<lambda>p. the (resolve_arg (live_context n) gs p)) (run_args n)
      = map (\<lambda>p. case map_of (live_context n) p of
                     Some v \<Rightarrow> v | None \<Rightarrow> the (map_of gs p)) (run_args n)"
    by (rule map_cong) (auto simp: resolve_arg_def split: option.splits)
  have "process run' n gs it =
        Inr (run' it (map (\<lambda>p. the (resolve_arg (live_context n) gs p)) (run_args n))
                     (populate_kwargs (run_args n) (live_context n)))"
    by (simp add: process_def populate_run_args_def populate_args_loop_eq none free)
  then show "process run' n gs it =
        Inr (run' it (map (\<lambda>p. case map_of (live_context n) p of
                                  Some v \<Rightarrow> v
                                | None \<Rightarrow> the (map_of gs p)) (run_args n))
                     (populate_kwargs (run_args n) (live_context n)))"
    by (simp only: vals)
next
  assume h: "run_args n = pre @ q # post
        \<and> (\<forall>p\<in>set pre. dict_contains (live_context n) p \<or> dict_contains gs p)
        \<and> \<not> dict_contains (live_context n) q \<and> \<not> dict_contains gs q"
  then have "filter (\<lambda>p. resolve_arg (live_context n) gs p = None) (run_args n)
      = q # filter (\<lambda>p. resolve_arg (live_context n) gs p = None) post"
    by (simp add: filter_first resolve_arg_None)
  then show "process run' n gs it = Inl (MissingRunArg q (live_context n))"
    by (simp add: process_def populate_run_args_def populate_args_loop_eq)
next
  assume h: "(\<forall>p\<in>set (run_args n). dict_contains (live_context n) p \<or> dict_contains gs p)
        \<and> run_call_collision (populate_kwargs (run_args n) (live_context n)) = Some key"
  then have none: "filter (\<lambda>p. resolve_arg (live_context n) gs p = None) (run_args n) = []"
    by (auto simp: resolve_arg_None filter_empty_conv)
  from h have hit: "run_call_collision (populate_kwargs (run_args n) (live_context n)) = Some key"
    by simp
  show "process run' n gs it
        = Inl (TypeError (''_run() got multiple values for argument '' @ key))"
    by (simp add: process_def populate_run_args_def populate_args_loop_eq none hit)
qed

text \<open>
  The three cases at concrete nodes: \<open>conn\<close> comes from the global state and \<open>table\<close>
  from the context although the global state has it too; with \<open>conn\<close> nowhere, the
  exception names \<open>conn\<close>; and with a key \<open>item\<close> in the context the call is refused.
\<close>

theorem process_resolution_witness:
  "process Node_run
      \<lparr>name = ''load'', default_context = [],
       live_context = [(''table'', PStr ''t''), (''n'', PInt 3)],
       run_args = [''conn'', ''table''], run_kwargs = []\<rparr>
      [(''conn'', PStr ''db''), (''table'', PStr ''other'')] (Plain (PInt 1))
     = Inr [Run (Plain (PInt 1)) [PStr ''db'', PStr ''t''] [(''n'', PInt 3)]]
   \<and> process Node_run
      \<lparr>name = ''load'', default_context = [], live_context = [(''table'', PStr ''t'')],
       run_args = [''table'', ''conn'', ''mode''], run_kwargs = []\<rparr>
      [] (Plain (PInt 1))
     = Inl (MissingRunArg ''conn'' [(''table'', PStr ''t'')])
   \<and> process Node_run
      \<lparr>name = ''load'', default_context = [],
       live_context = [(''conn'', PStr ''db''), (''item'', PInt 5)],
       run_args = [''conn''], run_kwargs = []\<rparr>
      [] (Plain (PInt 1))
     = Inl (TypeError ''_run() got multiple values for argument item'')"
proof -
  let ?n1 = "\<lparr>name = ''load'', default_context = [],
               live_context = [(''table'', PStr ''t''), (''n'', PInt 3)],
               run_args = [''conn'', ''table''], run_kwargs = []\<rparr>"
  let ?gs1 = "[(''conn'', PStr ''db''), (''table'', PStr ''other'')]"
  let ?n2 = "\<lparr>name = ''load'', default_context = [], live_context = [(''table'', PStr ''t'')],
               run_args = [''table'', ''conn'', ''mode''], run_kwargs = []\<rparr>"
  let ?n3 = "\<lparr>name = ''load'', default_context = [],
               live_context = [(''conn'', PStr ''db''), (''item'', PInt 5)],
               run_args = [''conn''], run_kwargs = []\<rparr>"
  have a: "(\<forall>p\<in>set (run_args ?n1). dict_contains (live_context ?n1) p \<or> dict_contains ?gs1 p)
      \<and> (\<forall>k\<in>{''self'', ''item''}. dict_contains (live_context ?n1) k
                                      \<longrightarrow> k \<in> set (run_args ?n1))"
    by (simp add: dict_contains_def)
  have b: "run_args ?n2 = [''table''] @ ''conn'' # [''mode'']
        \<and> (\<forall>p\<in>set [''table'']. dict_contains (live_context ?n2) p
                                 \<or> dict_contains ([]::pydict) p)
        \<and> \<not> dict_contains (live_context ?n2) ''conn'' \<and> \<not> dict_contains ([]::pydict) ''conn''"
    by (simp add: dict_contains_def)
  have c: "(\<forall>p\<in>set (run_args ?n3). dict_contains (live_context ?n3) p
                                     \<or> dict_contains ([]::pydict) p)
        \<and> run_call_collision (populate_kwargs (run_args ?n3) (live_context ?n3)) = Some ''item''"
    by (simp add: dict_contains_def run_call_collision_def populate_kwargs_def)
  from process_resolution [of ?n1 ?gs1 Node_run "Plain (PInt 1)" "[]" "''x''" "[]" "''y''"] a
  have "process Node_run ?n1 ?gs1 (Plain (PInt 1)) =
        Inr [Run (Plain (PInt 1)) [PStr ''db'', PStr ''t''] [(''n'', PInt 3)]]"
    by (simp add: populate_kwargs_def Node_run_def)
  moreover
  from process_resolution [of ?n2 "[]" Node_run "Plain (PInt 1)" "[''table'']" "''conn''"
                              "[''mode'']" "''y''"] b
  have "process Node_run ?n2 [] (Plain (PInt 1))
      = Inl (MissingRunArg ''conn'' [(''table'', PStr ''t'')])"
    by simp
  moreover
  from process_resolution [of ?n3 "[]" Node_run "Plain (PInt 1)" "[]" "''x''" "[]" "''item''"] c
  have "process Node_run ?n3 [] (Plain (PInt 1))
      = Inl (TypeError ''_run() got multiple values for argument item'')"
    by simp
  ultimately show ?thesis by simp
qed

section \<open>Skipping false items\<close>

text \<open>
  C3. In a \<open>SkipFalseNode\<close>, a tabular item with no rows and a non-tabular item that
  is falsy are pushed unchanged and \<open>run\<close> is not called; a tabular item with rows
  and a truthy non-tabular item go to \<open>run\<close>, once, and nothing else happens. This is
  what \<open>process\<close> does with the item once the arguments of \<open>run\<close> are resolved and
  the call of \<open>_run\<close> is accepted.
\<close>

theorem SkipFalseNode_run_skips:
  "SkipFalseNode_run (Tabular []) args kwargs = [Push (Tabular [])]
   \<and> (\<not> truthy v \<longrightarrow> SkipFalseNode_run (Plain v) args kwargs = [Push (Plain v)])
   \<and> (rows \<noteq> [] \<longrightarrow>
        SkipFalseNode_run (Tabular rows) args kwargs = [Run (Tabular rows) args kwargs])
   \<and> (truthy v \<longrightarrow> SkipFalseNode_run (Plain v) args kwargs = [Run (Plain v) args kwargs])
   \<and> (populate_run_args n gs = Inr (args, kwargs) \<and> run_call_collision kwargs = None \<longrightarrow>
        process SkipFalseNode_run n gs it = Inr (SkipFalseNode_run it args kwargs))"
  by (simp add: SkipFalseNode_run_def process_def)

theorem SkipFalseNode_run_skips_witness:
  "\<not> truthy (PList [])
   \<and> SkipFalseNode_run (Plain (PList [])) [PInt 1] [] = [Push (Plain (PList []))]
   \<and> truthy (PStr ''row'')
   \<and> SkipFalseNode_run (Plain (PStr ''row'')) [PInt 1] []
       = [Run (Plain (PStr ''row'')) [PInt 1] []]
   \<and> SkipFalseNode_run (Tabular [ [PInt 7]]) [PInt 1] []
       = [Run (Tabular [ [PInt 7]]) [PInt 1] []]
   \<and> process SkipFalseNode_run
        \<lparr>name = ''load'', default_context = [], live_context = [(''conn'', PInt 1)],
         run_args = [''conn''], run_kwargs = []\<rparr> [] (Tabular [])
       = Inr [Push (Tabular [])]"
proof -
  let ?n = "\<lparr>name = ''load'', default_context = [], live_context = [(''conn'', PInt 1)],
              run_args = [''conn''], run_kwargs = []\<rparr>"
  have p: "populate_run_args ?n [] = Inr ([PInt 1], []) \<and> run_call_collision [] = None"
    by (simp add: populate_run_args_def populate_kwargs_def run_call_collision_def)
  have f: "\<not> truthy (PList [])" and t: "truthy (PStr ''row'')"
    by simp_all
  from SkipFalseNode_run_skips [of "[PInt 1]" "[]" "PList []" "[ [PInt 7]]" ?n "[]" "Tabular []"]
       SkipFalseNode_run_skips [of "[PInt 1]" "[]" "PStr ''row''" "[ [PInt 7]]" ?n "[]" "Tabular []"]
       p f t
  show ?thesis by simp
qed

section \<open>Reducer\<close>






section \<open>Splitting an item over the downstream nodes\<close>

lemma nth_cumsum:
  "i < length xs \<Longrightarrow> cumsum a xs ! i = a + sum_list (take (Suc i) xs)"
proof (induction xs arbitrary: a i)
  case Nil
  then show ?case by simp
next
  case (Cons x xs)
  then show ?case by (cases i) simp_all
qed

lemma div_point_nth:
  "i \<le> length s \<Longrightarrow> cumsum 0 (0 # s) ! i = sum_list (take i s)"
  using nth_cumsum [of i "0 # s" 0] by simp

lemma slice_div_points:
  assumes "i < length s"
  shows "slice xs (cumsum 0 (0 # s) ! i) (cumsum 0 (0 # s) ! (i + 1))
       = take (s ! i) (drop (sum_list (take i s)) xs)"
proof -
  have "sum_list (take (Suc i) s) = sum_list (take i s) + s ! i"
    using assms by (simp add: take_Suc_conv_app_nth)
  moreover have "cumsum 0 (0 # s) ! i = sum_list (take i s)"
    using assms by (intro div_point_nth) simp
  moreover have "cumsum 0 (0 # s) ! (i + 1) = sum_list (take (i + 1) s)"
    using assms by (intro div_point_nth) simp
  ultimately show ?thesis
    unfolding slice_def by simp
qed

lemma concat_chunks:
  "concat (map (\<lambda>i. take (s ! i) (drop (sum_list (take i s)) xs)) [0..<length s])
     = take (sum_list s) xs"
proof (induction s rule: rev_induct)
  case Nil
  then show ?case by simp
next
  case (snoc x s)
  define F where "F = (\<lambda>i. take ((s @ [x]) ! i) (drop (sum_list (take i (s @ [x]))) xs))"
  have old: "map F [0..<length s]
      = map (\<lambda>i. take (s ! i) (drop (sum_list (take i s)) xs)) [0..<length s]"
    by (rule map_cong) (simp_all add: F_def nth_append)
  have new: "F (length s) = take x (drop (sum_list s) xs)"
    by (simp add: F_def)
  have "concat (map F [0..<length (s @ [x])]) = concat (map F [0..<length s]) @ F (length s)"
    by simp
  also have "\<dots> = take (sum_list s) xs @ take x (drop (sum_list s) xs)"
    by (simp only: old new snoc.IH)
  also have "\<dots> = take (sum_list (s @ [x])) xs"
    by (simp add: take_add)
  finally show ?case
    by (simp only: F_def)
qed

lemma section_sizes_eq: "section_sizes L N = 0 # sizes L N"
  by (simp add: section_sizes_def sizes_def Let_def)

lemma length_sizes: "0 < N \<Longrightarrow> length (sizes L N) = N"
  by (simp add: sizes_def)

lemma sum_list_sizes: "0 < N \<Longrightarrow> sum_list (sizes L N) = L"
proof -
  assume "0 < N"
  then have "L mod N \<le> N" by simp
  then have "sum_list (sizes L N) = (L mod N) * (L div N + 1) + (N - L mod N) * (L div N)"
    by (simp add: sizes_def sum_list_replicate)
  also have "\<dots> = L mod N + (L mod N + (N - L mod N)) * (L div N)"
    by (simp add: algebra_simps)
  also have "\<dots> = L mod N + N * (L div N)"
    using \<open>L mod N \<le> N\<close> by simp
  also have "\<dots> = L" by simp
  finally show ?thesis .
qed

lemma nth_sizes:
  "0 < N \<Longrightarrow> i < N \<Longrightarrow> sizes L N ! i = (if i < L mod N then L div N + 1 else L div N)"
  by (simp add: sizes_def nth_append)

lemma array_split_eq:
  "0 < N \<Longrightarrow> array_split xs (Inr sary) N =
     Inr (map (\<lambda>i. take (sizes (length xs) N ! i)
                       (drop (sum_list (take i (sizes (length xs) N))) sary)) [0..<N])"
proof -
  assume N: "0 < N"
  let ?s = "sizes (length xs) N"
  have "map (\<lambda>i. slice sary (cumsum 0 (0 # ?s) ! i) (cumsum 0 (0 # ?s) ! (i + 1))) [0..<N]
      = map (\<lambda>i. take (?s ! i) (drop (sum_list (take i ?s)) sary)) [0..<N]"
    by (rule map_cong)
       (simp_all only: slice_div_points length_sizes [OF N] atLeastLessThan_iff set_upt)
  then show ?thesis
    using N by (simp only: array_split_def section_sizes_eq Let_def) simp
qed

lemma sum_take_le:
  assumes "i < length s"
  shows "sum_list (take i s) + s ! i \<le> sum_list (s::nat list)"
proof -
  have "s = take i s @ s ! i # drop (Suc i) s"
    using assms by (simp add: id_take_nth_drop)
  then have "sum_list s = sum_list (take i s) + s ! i + sum_list (drop (Suc i) s)"
    by (metis add.assoc sum_list.Cons sum_list.append)
  then show ?thesis by simp
qed

lemma array_split_props:
  assumes "0 < N" and "array_split xs (Inr sary) N = Inr splits"
      and "length sary = length xs"
  shows "length splits = N" and "concat splits = sary"
    and "\<forall>i<N. length (splits ! i)
                 = (if i < length xs mod N then length xs div N + 1 else length xs div N)"
proof -
  let ?s = "sizes (length xs) N"
  have sp: "splits = map (\<lambda>i. take (?s ! i) (drop (sum_list (take i ?s)) sary)) [0..<N]"
    using assms(1,2) by (simp add: array_split_eq)
  show "length splits = N" by (simp add: sp)
  have "concat splits = take (sum_list ?s) sary"
    using concat_chunks [of ?s sary] by (simp add: sp length_sizes assms(1))
  then show "concat splits = sary"
    by (simp add: sum_list_sizes assms(1,3))
  show "\<forall>i<N. length (splits ! i)
                = (if i < length xs mod N then length xs div N + 1 else length xs div N)"
  proof (intro allI impI)
    fix i assume i: "i < N"
    have "sum_list (take i ?s) + ?s ! i \<le> length sary"
      using sum_take_le [of i ?s] i
      by (simp add: length_sizes assms(1,3) sum_list_sizes)
    then have "length (splits ! i) = ?s ! i"
      using i by (simp add: sp)
    then show "length (splits ! i)
                = (if i < length xs mod N then length xs div N + 1 else length xs div N)"
      using i by (simp add: nth_sizes assms(1))
  qed
qed

lemma map_enumerate_zip:
  "length ys = length xs \<Longrightarrow>
   map (\<lambda>(i, d). (d, ys ! (i - k))) (enumerate k xs) = zip xs ys"
proof (induction xs arbitrary: ys k)
  case Nil
  then show ?case by simp
next
  case (Cons x xs)
  then obtain y ys' where ys: "ys = y # ys'" by (cases ys) auto
  have tl: "map (\<lambda>(i, d). (d, ys ! (i - k))) (enumerate (Suc k) xs)
      = map (\<lambda>(i, d). (d, ys' ! (i - Suc k))) (enumerate (Suc k) xs)"
    by (rule map_cong) (auto simp: ys in_set_enumerate_eq nth_Cons')
  have ih: "map (\<lambda>(i, d). (d, ys' ! (i - Suc k))) (enumerate (Suc k) xs) = zip xs ys'"
    using Cons.prems by (intro Cons.IH) (simp add: ys)
  have "map (\<lambda>(i, d). (d, ys ! (i - k))) (enumerate k (x # xs))
      = (x, ys ! 0) # map (\<lambda>(i, d). (d, ys ! (i - k))) (enumerate (Suc k) xs)"
    by simp
  also have "\<dots> = (x, y) # zip xs ys'"
    by (simp only: tl ih) (simp add: ys)
  finally show ?case
    by (simp add: ys)
qed

text \<open>
  C4, as stated, fails. The node is in split mode with two downstream nodes and the
  item is the list \<open>[1, 'a']\<close>, of which numpy makes the array \<open>['1', 'a']\<close>: the slices
  submitted are \<open>['1']\<close> and \<open>['a']\<close>, and put together they are not the item.
\<close>

theorem FuturesPushNode_push_split_counterexample:
  "FuturesPushNode_push
       \<lparr>name = ''fan'', default_context = [], live_context = [(''split'', PBool True)],
        run_args = [], run_kwargs = []\<rparr>
       None None [''a'', ''b''] [PInt 1, PStr ''a''] (Inr [PStr ''1'', PStr ''a''])
     = (Inr (), [(''a'', [PStr ''1'']), (''b'', [PStr ''a''])])
   \<and> concat [ [PStr ''1''], [PStr ''a'']] \<noteq> [PInt 1, PStr ''a'']"
  by (simp add: FuturesPushNode_push_def executor_kwargs_def dict_get_def array_split_def
                section_sizes_def slice_def Let_def)

text \<open>
  C4, amended. A push in split mode to \<open>N\<close> downstream nodes, \<open>N\<close> at least one, of an
  item of length \<open>L\<close>, when the executor is created and numpy makes of the item an
  array \<open>sary\<close> of the same length: the array is cut into \<open>N\<close> slices, slice \<open>i\<close> is
  submitted for downstream node \<open>i\<close> (whatever the tasks do afterwards), the slices
  put together in order are the array, and any two slice lengths differ by at
  most one. For an item that is an array, \<open>sary\<close> is the item.
\<close>

theorem FuturesPushNode_push_split:
  assumes "truthy (dict_get (live_context n) ''split'' (PBool False))"
      and "downstream_nodes \<noteq> []"
      and "executor_kwargs n = Inr kw"
      and "length sary = length it"
  shows "\<exists>splits.
           FuturesPushNode_push n None task_failure downstream_nodes it (Inr sary)
             = (case task_failure of Some e \<Rightarrow> Inl e | None \<Rightarrow> Inr (),
                zip downstream_nodes splits)
           \<and> length splits = length downstream_nodes
           \<and> concat splits = sary
           \<and> (\<forall>i<length splits. \<forall>j<length splits.
                 length (splits ! i) \<le> length (splits ! j) + 1)"
proof -
  let ?N = "length downstream_nodes"
  have N: "0 < ?N" using assms(2) by simp
  then obtain splits where sp: "array_split it (Inr sary) ?N = Inr splits"
    by (simp add: array_split_eq)
  note props = array_split_props [OF N sp assms(4)]
  have "FuturesPushNode_push n None task_failure downstream_nodes it (Inr sary)
          = (case task_failure of Some e \<Rightarrow> Inl e | None \<Rightarrow> Inr (),
             zip downstream_nodes splits)"
    using map_enumerate_zip [of splits downstream_nodes 0] props(1)
    by (simp add: FuturesPushNode_push_def assms(1,3) sp)
  moreover have "\<forall>i<length splits. \<forall>j<length splits.
                   length (splits ! i) \<le> length (splits ! j) + 1"
    using props(3) by (simp add: props(1))
  ultimately show ?thesis using props(1,2) by blast
qed

text \<open>
  Three downstream nodes and an array of seven elements: slices of three, two and
  two.
\<close>

theorem FuturesPushNode_push_split_witness:
  "truthy (dict_get (live_context
       \<lparr>name = ''fan'', default_context = [], live_context = [(''split'', PBool True)],
        run_args = [], run_kwargs = []\<rparr>) ''split'' (PBool False))
   \<and> [''a'', ''b'', ''c''] \<noteq> []
   \<and> executor_kwargs
       \<lparr>name = ''fan'', default_context = [], live_context = [(''split'', PBool True)],
        run_args = [], run_kwargs = []\<rparr> = Inr []
   \<and> FuturesPushNode_push
       \<lparr>name = ''fan'', default_context = [], live_context = [(''split'', PBool True)],
        run_args = [], run_kwargs = []\<rparr> None None [''a'', ''b'', ''c'']
       [1, 2, 3, 4, 5, 6, 7 :: int] (Inr [1, 2, 3, 4, 5, 6, 7])
     = (Inr (), [(''a'', [1, 2, 3]), (''b'', [4, 5]), (''c'', [6, 7])])
   \<and> (\<exists>splits. FuturesPushNode_push
       \<lparr>name = ''fan'', default_context = [], live_context = [(''split'', PBool True)],
        run_args = [], run_kwargs = []\<rparr> None None [''a'', ''b'', ''c'']
       [1, 2, 3, 4, 5, 6, 7 :: int] (Inr [1, 2, 3, 4, 5, 6, 7])
         = (Inr (), zip [''a'', ''b'', ''c''] splits)
       \<and> concat splits = [1, 2, 3, 4, 5, 6, 7])"
proof -
  let ?n = "\<lparr>name = ''fan'', default_context = [], live_context = [(''split'', PBool True)],
              run_args = [], run_kwargs = []\<rparr>"
  have t: "truthy (dict_get (live_context ?n) ''split'' (PBool False))"
    by (simp add: dict_get_def)
  have d: "[''a'', ''b'', ''c''] \<noteq> []" by simp
  have k: "executor_kwargs ?n = Inr []"
    by (simp add: executor_kwargs_def dict_get_def)
  have l: "length [1, 2, 3, 4, 5, 6, 7 :: int] = length [1, 2, 3, 4, 5, 6, 7 :: int]"
    by simp
  have v: "FuturesPushNode_push ?n None None [''a'', ''b'', ''c'']
             [1, 2, 3, 4, 5, 6, 7 :: int] (Inr [1, 2, 3, 4, 5, 6, 7])
     = (Inr (), [(''a'', [1, 2, 3]), (''b'', [4, 5]), (''c'', [6, 7])])"
    by code_simp
  from FuturesPushNode_push_split [OF t d k l, of None]
  obtain splits where
    "FuturesPushNode_push ?n None None [''a'', ''b'', ''c'']
       [1, 2, 3, 4, 5, 6, 7 :: int] (Inr [1, 2, 3, 4, 5, 6, 7])
         = (Inr (), zip [''a'', ''b'', ''c''] splits)"
    and "concat splits = [1, 2, 3, 4, 5, 6, 7]"
    by auto
  with t d k v show ?thesis by blast
qed

section \<open>Clean-up\<close>

text \<open>
  C8 does not hold of the code. The clean-up map has two entries, both keys are among
  the keyword arguments, and the function for \<open>conn\<close> raises. Both functions are
  called, but the exception is swallowed by the bare \<open>except\<close>: no message is
  recorded for it and \<open>clean_up\<close> returns normally. Only a missing key leaves a
  message, as the entry \<open>gone\<close> of the second call shows.
\<close>

theorem clean_up_discards_exception:
  "clean_up (GliderScript_init [] [] [] []
       [(''conn'', \<lambda>v. Some (ValueError ''close failed'')), (''tmp'', \<lambda>v. None)])
     [(''conn'', PInt 1), (''tmp'', PInt 2)]
     = (Inr (), [(''conn'', PInt 1), (''tmp'', PInt 2)])
   \<and> clean_up (GliderScript_init [] [] [] []
       [(''conn'', \<lambda>v. Some (ValueError ''close failed'')), (''gone'', \<lambda>v. None),
        (''tmp'', \<lambda>v. None)])
     [(''conn'', PInt 1), (''tmp'', PInt 2)]
     = (Inl (CleanUpErrors [''Could not clean up gone, no arg found'']),
        [(''conn'', PInt 1), (''tmp'', PInt 2)])"
  by (simp add: clean_up_def GliderScript_init_def clean_try_def dict_contains_def)

section \<open>The surface of a two-node pipeline and its way back\<close>

lemma convert_loop_unused:
  "convert_loop nodes kwargs (ncs0, un0) = Inr (ncs, un) \<Longrightarrow>
   set un0 \<subseteq> set un
   \<and> (\<forall>k\<in>fst ` set kwargs. hd (split CHR ''_'' k) \<notin> set nodes \<longrightarrow> k \<in> set un)"
proof (induction kwargs arbitrary: ncs0 un0)
  case Nil
  then show ?case by simp
next
  case (Cons kv kwargs)
  obtain key v where kv: "kv = (key, v)" by (cases kv)
  show ?case
  proof (cases "hd (split CHR ''_'' key) \<in> set nodes")
    case True
    with Cons.prems kv have
      "convert_loop nodes kwargs
         (set_node_context ncs0 (hd (split CHR ''_'' key))
            (join ''_'' (tl (split CHR ''_'' key))) v, un0) = Inr (ncs, un)"
      by (simp add: Let_def split: if_splits)
    from Cons.IH [OF this] True kv show ?thesis by auto
  next
    case False
    with Cons.prems kv have
      "convert_loop nodes kwargs (ncs0, if key \<in> set un0 then un0 else un0 @ [key])
         = Inr (ncs, un)"
      by (simp add: Let_def)
    from Cons.IH [OF this] kv show ?thesis by (auto split: if_splits)
  qed
qed

lemma map_of_foldl_update:
  "map_of (foldl (\<lambda>fk key. AList.update key (f key) fk) base keys) k
     = (if k \<in> set keys then Some (f k) else map_of base k)"
  by (induction keys arbitrary: base) (simp_all add: update_conv')

lemma convert_kwargs_passthrough:
  assumes "convert_kwargs self kwargs = Inr final"
      and "map_of kwargs k = Some v"
      and "hd (split CHR ''_'' k) \<notin> set (map name (node_lookup self))"
  shows "map_of final k = Some v"
proof -
  from assms(1) obtain ncs un injected where
    loop: "convert_loop (map name (node_lookup self)) kwargs ([], []) = Inr (ncs, un)"
    and final: "final = foldl (\<lambda>fk key. AList.update key (dict_get kwargs key PNone) fk)
                   (map (\<lambda>nc. (fst nc, PDict (snd nc))) (merge_injected ncs injected)) un"
    by (auto simp: convert_kwargs_def Let_def split: sum.splits prod.splits)
  have "k \<in> fst ` set kwargs"
    using assms(2) by (metis map_of_eq_None_iff option.distinct(1))
  with convert_loop_unused [OF loop] assms(3) have "k \<in> set un" by blast
  then show ?thesis
    by (simp add: final map_of_foldl_update dict_get_def assms(2))
qed

text \<open>
  C7. Node \<open>a\<close> has \<open>run(item, x)\<close> and node \<open>b\<close> has \<open>run(item, y=5)\<close>; nothing is
  blacklisted or injected and the contexts and the global state are empty. The
  arguments of the script are the data argument, \<open>--a_x\<close> (required, a string, default
  \<open>None\<close>) and \<open>--b_y\<close> (not required, an integer, default 5). The flat arguments
  \<open>a_x=foo\<close>, \<open>b_y=9\<close> convert to the context updates \<open>{a: {x: foo}, b: {y: 9}}\<close>. And
  for every script: when the conversion returns, a key whose first segment before
  an underscore is not the name of a node is a top-level key of the result, with
  its value.
\<close>

theorem cli_surface_round_trip:
  "Node_init ''a'' []
       [\<lparr>param_name = ''item'', param_kind = POSITIONAL_OR_KEYWORD, param_default = None\<rparr>,
        \<lparr>param_name = ''x'', param_kind = POSITIONAL_OR_KEYWORD, param_default = None\<rparr>]
     = Inr \<lparr>name = ''a'', default_context = [], live_context = [],
            run_args = [''x''], run_kwargs = []\<rparr>
   \<and> Node_init ''b'' []
       [\<lparr>param_name = ''item'', param_kind = POSITIONAL_OR_KEYWORD, param_default = None\<rparr>,
        \<lparr>param_name = ''y'', param_kind = POSITIONAL_OR_KEYWORD,
         param_default = Some (PInt 5)\<rparr>]
     = Inr \<lparr>name = ''b'', default_context = [], live_context = [],
            run_args = [], run_kwargs = [(''y'', PInt 5)]\<rparr>
   \<and> get_script_args (GliderScript_init
         [\<lparr>name = ''a'', default_context = [], live_context = [],
           run_args = [''x''], run_kwargs = []\<rparr>,
          \<lparr>name = ''b'', default_context = [], live_context = [],
           run_args = [], run_kwargs = [(''y'', PInt 5)]\<rparr>] [] [] [] []) []
     = Inr [\<lparr>arg_flag = ''data'', arg_required = None, arg_type = None,
             arg_action = None, arg_default = None, arg_nargs = Some ''+''\<rparr>,
            \<lparr>arg_flag = ''--a_x'', arg_required = Some True, arg_type = Some TStr,
             arg_action = None, arg_default = Some PNone, arg_nargs = None\<rparr>,
            \<lparr>arg_flag = ''--b_y'', arg_required = Some False, arg_type = Some TInt,
             arg_action = None, arg_default = Some (PInt 5), arg_nargs = None\<rparr>]
   \<and> convert_kwargs (GliderScript_init
         [\<lparr>name = ''a'', default_context = [], live_context = [],
           run_args = [''x''], run_kwargs = []\<rparr>,
          \<lparr>name = ''b'', default_context = [], live_context = [],
           run_args = [], run_kwargs = [(''y'', PInt 5)]\<rparr>] [] [] [] [])
       [(''a_x'', PStr ''foo''), (''b_y'', PInt 9)]
     = Inr [(''a'', PDict [(''x'', PStr ''foo'')]), (''b'', PDict [(''y'', PInt 9)])]
   \<and> (convert_kwargs self kwargs = Inr final
        \<and> map_of kwargs k = Some v
        \<and> hd (split CHR ''_'' k) \<notin> set (map name (node_lookup self))
      \<longrightarrow> map_of final k = Some v)"
proof (intro conjI impI)
  show "Node_init ''a'' []
       [\<lparr>param_name = ''item'', param_kind = POSITIONAL_OR_KEYWORD, param_default = None\<rparr>,
        \<lparr>param_name = ''x'', param_kind = POSITIONAL_OR_KEYWORD, param_default = None\<rparr>]
     = Inr \<lparr>name = ''a'', default_context = [], live_context = [],
            run_args = [''x''], run_kwargs = []\<rparr>"
    by (simp add: Node_init_def get_run_args_def reset_context_def)
  show "Node_init ''b'' []
       [\<lparr>param_name = ''item'', param_kind = POSITIONAL_OR_KEYWORD, param_default = None\<rparr>,
        \<lparr>param_name = ''y'', param_kind = POSITIONAL_OR_KEYWORD,
         param_default = Some (PInt 5)\<rparr>]
     = Inr \<lparr>name = ''b'', default_context = [], live_context = [],
            run_args = [], run_kwargs = [(''y'', PInt 5)]\<rparr>"
    by (simp add: Node_init_def get_run_args_def reset_context_def)
  show "get_script_args (GliderScript_init
         [\<lparr>name = ''a'', default_context = [], live_context = [],
           run_args = [''x''], run_kwargs = []\<rparr>,
          \<lparr>name = ''b'', default_context = [], live_context = [],
           run_args = [], run_kwargs = [(''y'', PInt 5)]\<rparr>] [] [] [] []) []
     = Inr [\<lparr>arg_flag = ''data'', arg_required = None, arg_type = None,
             arg_action = None, arg_default = None, arg_nargs = Some ''+''\<rparr>,
            \<lparr>arg_flag = ''--a_x'', arg_required = Some True, arg_type = Some TStr,
             arg_action = None, arg_default = Some PNone, arg_nargs = None\<rparr>,
            \<lparr>arg_flag = ''--b_y'', arg_required = Some False, arg_type = Some TInt,
             arg_action = None, arg_default = Some (PInt 5), arg_nargs = None\<rparr>]"
    by (simp add: get_script_args_def GliderScript_init_def blacklisted_def
          SCRIPT_DATA_ARG_def node_script_args_def get_script_arg_def add_script_arg_def
          Arg_name_def get_script_arg_name_def dict_contains_def)
  show "convert_kwargs (GliderScript_init
         [\<lparr>name = ''a'', default_context = [], live_context = [],
           run_args = [''x''], run_kwargs = []\<rparr>,
          \<lparr>name = ''b'', default_context = [], live_context = [],
           run_args = [], run_kwargs = [(''y'', PInt 5)]\<rparr>] [] [] [] [])
       [(''a_x'', PStr ''foo''), (''b_y'', PInt 9)]
     = Inr [(''a'', PDict [(''x'', PStr ''foo'')]), (''b'', PDict [(''y'', PInt 9)])]"
    by (simp add: convert_kwargs_def GliderScript_init_def set_node_context_def dict_get_def
          get_injected_node_contexts_def dict_contains_def merge_injected_def)
next
  assume "convert_kwargs self kwargs = Inr final
        \<and> map_of kwargs k = Some v
        \<and> hd (split CHR ''_'' k) \<notin> set (map name (node_lookup self))"
  then show "map_of final k = Some v"
    using convert_kwargs_passthrough by blast
qed

text \<open>
  The pass-through at a concrete call: \<open>verbose\<close> and \<open>c_z\<close> name no node and stay at
  the top level, \<open>a_long_name\<close> goes to node \<open>a\<close> as \<open>long_name\<close>.
\<close>

theorem cli_surface_round_trip_witness:
  "convert_kwargs (GliderScript_init
         [\<lparr>name = ''a'', default_context = [], live_context = [],
           run_args = [''x''], run_kwargs = []\<rparr>] [] [] [] [])
       [(''a_long_name'', PInt 2), (''c_z'', PInt 1), (''verbose'', PBool True)]
     = Inr [(''a'', PDict [(''long_name'', PInt 2)]), (''c_z'', PInt 1),
            (''verbose'', PBool True)]
   \<and> map_of [(''a_long_name'', PInt 2), (''c_z'', PInt 1), (''verbose'', PBool True)] ''c_z''
       = Some (PInt 1)
   \<and> hd (split CHR ''_'' ''c_z'') \<notin> set (map name (node_lookup (GliderScript_init
         [\<lparr>name = ''a'', default_context = [], live_context = [],
           run_args = [''x''], run_kwargs = []\<rparr>] [] [] [] [])))
   \<and> map_of [(''a'', PDict [(''long_name'', PInt 2)]), (''c_z'', PInt 1),
              (''verbose'', PBool True)] ''c_z'' = Some (PInt 1)"
proof -
  let ?S = "GliderScript_init
         [\<lparr>name = ''a'', default_context = [], live_context = [],
           run_args = [''x''], run_kwargs = []\<rparr>] [] [] [] []"
  let ?kw = "[(''a_long_name'', PInt 2), (''c_z'', PInt 1), (''verbose'', PBool True)]"
  let ?final = "[(''a'', PDict [(''long_name'', PInt 2)]), (''c_z'', PInt 1),
                 (''verbose'', PBool True)]"
  have c: "convert_kwargs ?S ?kw = Inr ?final"
    by (simp add: convert_kwargs_def GliderScript_init_def set_node_context_def dict_get_def
          get_injected_node_contexts_def dict_contains_def merge_injected_def Let_def)
  have m: "map_of ?kw ''c_z'' = Some (PInt 1)"
    by simp
  have h: "hd (split CHR ''_'' ''c_z'') \<notin> set (map name (node_lookup ?S))"
    by (simp add: GliderScript_init_def)
  from cli_surface_round_trip [of ?S ?kw ?final "''c_z''" "PInt 1"] c m h
  have "map_of ?final ''c_z'' = Some (PInt 1)"
    by blast
  with c m h show ?thesis by blast
qed

section \<open>Injected values\<close>

text \<open>
  C10 does not hold of the code for keyword parameters. Node \<open>b\<close> has
  \<open>run(item, x, y=5)\<close>. With \<open>y\<close> injected (its provider returns 42) and \<open>b_x=foo\<close>,
  \<open>b_y=9\<close> on the command line, the context of \<open>b\<close> keeps the command line value 9
  under \<open>y\<close> and gets the injected 42 under \<open>x\<close>: the source writes the value of a
  keyword parameter under the variable of the loop over the required parameters.
  With \<open>x\<close> injected instead, the context of \<open>b\<close> has the injected 42 under \<open>x\<close>, as
  C10 says. When the node has no required parameter at all, that variable is
  unbound and the conversion fails.
\<close>

theorem convert_kwargs_injected_keyword:
  "get_injected_kwargs (GliderScript_init
       [\<lparr>name = ''b'', default_context = [], live_context = [],
         run_args = [''x''], run_kwargs = [(''y'', PInt 5)]\<rparr>]
       [] [] [(''y'', \<lambda>u. PInt 42)] []) = [(''y'', PInt 42)]
   \<and> convert_kwargs (GliderScript_init
       [\<lparr>name = ''b'', default_context = [], live_context = [],
         run_args = [''x''], run_kwargs = [(''y'', PInt 5)]\<rparr>]
       [] [] [(''y'', \<lambda>u. PInt 42)] [])
       [(''b_x'', PStr ''foo''), (''b_y'', PInt 9), (''y'', PInt 42)]
     = Inr [(''b'', PDict [(''x'', PInt 42), (''y'', PInt 9)]), (''y'', PInt 42)]
   \<and> convert_kwargs (GliderScript_init
       [\<lparr>name = ''b'', default_context = [], live_context = [],
         run_args = [''x''], run_kwargs = [(''y'', PInt 5)]\<rparr>]
       [] [] [(''x'', \<lambda>u. PInt 42)] [])
       [(''b_x'', PStr ''foo''), (''b_y'', PInt 9), (''x'', PInt 42)]
     = Inr [(''b'', PDict [(''x'', PInt 42), (''y'', PInt 9)]), (''x'', PInt 42)]
   \<and> convert_kwargs (GliderScript_init
       [\<lparr>name = ''b'', default_context = [], live_context = [],
         run_args = [], run_kwargs = [(''y'', PInt 5)]\<rparr>]
       [] [] [(''y'', \<lambda>u. PInt 42)] [])
       [(''b_y'', PInt 9), (''y'', PInt 42)]
     = Inl (UnboundLocalError ''arg_name'')"
  by (simp add: get_injected_kwargs_def convert_kwargs_def GliderScript_init_def
        set_node_context_def dict_get_def get_injected_node_contexts_def dict_contains_def
        merge_injected_def dict_update_def Let_def)

end
